theory Spec2Isabelle
  imports Main "HOL-Library.Sublist" "HOL-Library.AList"
begin

section \<open>JavaScript values used by the proxy\<close>

text \<open>
  Strings are lists of 8-bit characters: HTTP header values reach the handlers as
  Latin-1 strings, and the only operations applied to the \<open>url\<close> query parameter are
  truthiness and \<open>startsWith\<close>. A JavaScript number that the handlers compute is either
  \<open>NaN\<close> or an integer (\<open>parseInt\<close> results, sums and differences of them); integers
  are unbounded here, which is exact below \<open>2^53\<close>.
\<close>

datatype jsnum = NaN | Num int

fun isNaN :: "jsnum \<Rightarrow> bool" where
  "isNaN NaN = True"
| "isNaN (Num _) = False"

fun js_add :: "jsnum \<Rightarrow> jsnum \<Rightarrow> jsnum" where
  "js_add (Num a) (Num b) = Num (a + b)"
| "js_add _ _ = NaN"

fun js_sub :: "jsnum \<Rightarrow> jsnum \<Rightarrow> jsnum" where
  "js_sub (Num a) (Num b) = Num (a - b)"
| "js_sub _ _ = NaN"

text \<open>Every comparison with \<open>NaN\<close> is false.\<close>

fun js_lt :: "jsnum \<Rightarrow> jsnum \<Rightarrow> bool" where
  "js_lt (Num a) (Num b) = (a < b)"
| "js_lt _ _ = False"

fun js_gt :: "jsnum \<Rightarrow> jsnum \<Rightarrow> bool" where
  "js_gt (Num a) (Num b) = (a > b)"
| "js_gt _ _ = False"

fun js_ge :: "jsnum \<Rightarrow> jsnum \<Rightarrow> bool" where
  "js_ge (Num a) (Num b) = (a \<ge> b)"
| "js_ge _ _ = False"

text \<open>\<open>!x\<close> on a number: true for \<open>NaN\<close> and for zero.\<close>

fun num_falsy :: "jsnum \<Rightarrow> bool" where
  "num_falsy NaN = True"
| "num_falsy (Num i) = (i = 0)"

text \<open>Truthiness of a value that is a string, \<open>null\<close> or \<open>undefined\<close>.\<close>

fun str_truthy :: "string option \<Rightarrow> bool" where
  "str_truthy None = False"
| "str_truthy (Some s) = (s \<noteq> [])"

text \<open>\<open>x || d\<close> for such a value and a string default.\<close>

fun str_or :: "string option \<Rightarrow> string \<Rightarrow> string" where
  "str_or None d = d"
| "str_or (Some s) d = (if s = [] then d else s)"

subsection \<open>Characters\<close>

definition is_digit :: "char \<Rightarrow> bool" where
  "is_digit c = (48 \<le> (of_char c :: nat) \<and> (of_char c :: nat) \<le> 57)"

definition digit_val :: "char \<Rightarrow> int" where
  "digit_val c = int (of_char c) - 48"

definition is_hex :: "char \<Rightarrow> bool" where
  "is_hex c = (is_digit c \<or> (65 \<le> (of_char c :: nat) \<and> (of_char c :: nat) \<le> 70)
                \<or> (97 \<le> (of_char c :: nat) \<and> (of_char c :: nat) \<le> 102))"

definition hex_val :: "char \<Rightarrow> int" where
  "hex_val c = (if is_digit c then digit_val c
                else if (of_char c :: nat) \<le> 70 then int (of_char c) - 55
                else int (of_char c) - 87)"

text \<open>White space and line terminators of ECMAScript that exist in Latin-1:
  TAB, LF, VT, FF, CR, SP and NBSP. \<open>parseInt\<close>, \<open>trim\<close> and the regular-expression
  class \<open>\s\<close> all use this set.\<close>

definition is_ws :: "char \<Rightarrow> bool" where
  "is_ws c = ((of_char c :: nat) \<in> {9, 10, 11, 12, 13, 32, 160})"

subsection \<open>\<open>parseInt\<close> and number formatting\<close>

definition strip_sign :: "string \<Rightarrow> bool \<times> string" where
  "strip_sign s =
     (case s of
        [] \<Rightarrow> (False, [])
      | c # r \<Rightarrow> if c = CHR ''-'' then (True, r)
                 else if c = CHR ''+'' then (False, r)
                 else (False, s))"

definition parse_digits :: "(char \<Rightarrow> bool) \<Rightarrow> (char \<Rightarrow> int) \<Rightarrow> int \<Rightarrow> bool \<Rightarrow> string \<Rightarrow> jsnum" where
  "parse_digits ok val R neg s =
     (let ds = takeWhile ok s
      in if ds = [] then NaN
         else Num ((if neg then - 1 else 1) * foldl (\<lambda>acc c. R * acc + val c) 0 ds))"

text \<open>\<open>parseInt(s, 10)\<close>: leading white space, an optional sign, then the longest
  prefix of decimal digits; \<open>NaN\<close> when that prefix is empty.\<close>

definition parseInt10 :: "string \<Rightarrow> jsnum" where
  "parseInt10 s =
     (let (neg, r) = strip_sign (dropWhile is_ws s)
      in parse_digits is_digit digit_val 10 neg r)"

text \<open>\<open>parseInt(s)\<close> with no radix: as above, but a \<open>0x\<close>/\<open>0X\<close> prefix selects
  radix 16.\<close>

definition parseInt :: "string \<Rightarrow> jsnum" where
  "parseInt s =
     (let (neg, r) = strip_sign (dropWhile is_ws s)
      in if prefix ''0x'' r \<or> prefix ''0X'' r
         then parse_digits is_hex hex_val 16 neg (drop 2 r)
         else parse_digits is_digit digit_val 10 neg r)"

text \<open>\<open>parseInt\<close> of \<open>null\<close> or \<open>undefined\<close> reads the text \<open>null\<close> or
  \<open>undefined\<close> and yields \<open>NaN\<close>.\<close>

fun parseInt_opt :: "string option \<Rightarrow> jsnum" where
  "parseInt_opt None = NaN"
| "parseInt_opt (Some s) = parseInt s"

fun parseInt10_opt :: "string option \<Rightarrow> jsnum" where
  "parseInt10_opt None = NaN"
| "parseInt10_opt (Some s) = parseInt10 s"

fun nat_digits :: "nat \<Rightarrow> string" where
  "nat_digits n =
     (if n < 10 then [char_of (48 + n)]
      else nat_digits (n div 10) @ [char_of (48 + n mod 10)])"

declare nat_digits.simps [simp del]

text \<open>The text a template literal inserts for a number.\<close>

fun num_toString :: "jsnum \<Rightarrow> string" where
  "num_toString NaN = ''NaN''"
| "num_toString (Num i) =
     (if i < 0 then CHR ''-'' # nat_digits (nat (- i)) else nat_digits (nat i))"

subsection \<open>String methods\<close>

text \<open>\<open>s.replace(/pat/, rep)\<close> for a literal pattern without the \<open>g\<close> flag: the
  first occurrence only.\<close>

fun replace_first :: "string \<Rightarrow> string \<Rightarrow> string \<Rightarrow> string" where
  "replace_first pat rep [] = (if pat = [] then rep else [])"
| "replace_first pat rep (c # cs) =
     (if prefix pat (c # cs) then rep @ drop (length pat) (c # cs)
      else c # replace_first pat rep cs)"

text \<open>\<open>s.split(sep)\<close> for a one-character separator: never an empty array.\<close>

fun split_js :: "char \<Rightarrow> string \<Rightarrow> string list" where
  "split_js sep [] = [[]]"
| "split_js sep (c # cs) =
     (if c = sep then [] # split_js sep cs
      else (case split_js sep cs of
              [] \<Rightarrow> [[c]]
            | p # ps \<Rightarrow> (c # p) # ps))"

text \<open>\<open>a[i]\<close> on an array: \<open>undefined\<close> out of range.\<close>

fun nth_opt :: "'a list \<Rightarrow> nat \<Rightarrow> 'a option" where
  "nth_opt [] _ = None"
| "nth_opt (x # xs) 0 = Some x"
| "nth_opt (x # xs) (Suc n) = nth_opt xs n"

definition trim :: "string \<Rightarrow> string" where
  "trim s = rev (dropWhile is_ws (rev (dropWhile is_ws s)))"

text \<open>\<open>a.join(sep)\<close>.\<close>

fun join :: "string \<Rightarrow> string list \<Rightarrow> string" where
  "join sep [] = []"
| "join sep [x] = x"
| "join sep (x # y # ys) = x @ sep @ join sep (y # ys)"

text \<open>\<open>s.padStart(n, '0')\<close>.\<close>

definition padStart0 :: "nat \<Rightarrow> string \<Rightarrow> string" where
  "padStart0 n s = replicate (n - length s) CHR ''0'' @ s"

section \<open>Range parsing shared by the handlers\<close>

text \<open>
  Each range-aware handler carries the same four statements:
  \<^verbatim>\<open>
  const parts = range.replace(/bytes=/, '').split('-');
  let start = parseInt(parts[0], 10);
  let end = parts[1] ? parseInt(parts[1], 10) : fileSize - 1;
  if (isNaN(start) && !isNaN(end)) { start = fileSize - end; end = fileSize - 1; }
  \<close>
  \<open>parse_range\<close> is that text; the validity test that follows it differs between
  the handlers and is part of each handler.
\<close>

definition parse_range :: "string \<Rightarrow> jsnum \<Rightarrow> jsnum \<times> jsnum" where
  "parse_range rangeHdr fileSize =
     (let parts = split_js CHR ''-'' (replace_first ''bytes='' [] rangeHdr);
          start = parseInt10_opt (nth_opt parts 0);
          end = (if str_truthy (nth_opt parts 1) then parseInt10_opt (nth_opt parts 1)
                 else js_sub fileSize (Num 1))
      in if isNaN start \<and> \<not> isNaN end
         then (js_sub fileSize end, js_sub fileSize (Num 1))
         else (start, end))"

section \<open>Requests, upstream calls and responses\<close>

text \<open>
  What a handler reads from the incoming request: the query parameters
  (\<open>None\<close> when absent) and the \<open>Range\<close> request header. A query parameter is a
  string here; Express can also deliver an array or an object for a repeated or bracketed
  parameter, and such requests are outside the model.
\<close>

record request =
  q_url :: "string option"
  q_title :: "string option"
  q_season :: "string option"
  q_episode :: "string option"
  q_quality :: "string option"
  h_range :: "string option"

datatype http_method = HEAD | GET

record upstream_call =
  call_method :: http_method
  call_url :: string
  call_headers :: "(string \<times> string) list"

text \<open>The headers of a CDN reply that the handlers read.\<close>

record upstream_reply =
  content_length :: "string option"
  content_type :: "string option"
  content_range :: "string option"

text \<open>
  The CDN as seen during one request: a call either rejects (\<open>Inl\<close> with the error's
  message: a network failure for \<open>fetch\<close>, also a non-2xx status for axios) or yields
  a reply. It is a function of the call, so the same call made twice during one request
  has the same result; only the axios stream handler can repeat a call (its second probe
  \<open>bytes=0-0\<close>, when the client asks for that very range).
\<close>

type_synonym upstream = "upstream_call \<Rightarrow> string + upstream_reply"

text \<open>A header value as the handler passes it: a string, a number, or \<open>undefined\<close>.\<close>

datatype hval = HStr string | HNum jsnum | HUndefined

text \<open>
  The body: none, a JSON object of string fields, the body of an upstream reply piped
  through, or nothing at all because the handler failed after the head of the response
  was written.
\<close>

datatype resp_body = NoBody | Json "(string \<times> string) list" | Piped upstream_call | Unsent

record response =
  status :: nat
  headers :: "(string \<times> hval) list"
  body :: resp_body

text \<open>
  A handler run yields the response and the upstream calls it issued, in order. The
  response is what the handler itself sets: the status, the headers it names, and the
  kind of body. Headers that the Express CORS middleware or \<open>res.json\<close> add, and the
  bytes of a piped body, are not part of it.
\<close>

type_synonym outcome = "response \<times> upstream_call list"

definition proxyHeaders :: "(string \<times> string) list" where
  "proxyHeaders =
     [(''User-Agent'', ''okhttp/4.12.0''),
      (''Referer'', ''https://fmoviesunblocked.net/''),
      (''Origin'', ''https://fmoviesunblocked.net'')]"

definition headCall :: "string \<Rightarrow> upstream_call" where
  "headCall u = \<lparr>call_method = HEAD, call_url = u, call_headers = proxyHeaders\<rparr>"

definition getCall :: "string \<Rightarrow> upstream_call" where
  "getCall u = \<lparr>call_method = GET, call_url = u, call_headers = proxyHeaders\<rparr>"

definition rangeCall :: "string \<Rightarrow> jsnum \<Rightarrow> jsnum \<Rightarrow> upstream_call" where
  "rangeCall u start end =
     \<lparr>call_method = GET, call_url = u,
      call_headers = proxyHeaders @
        [(''Range'', ''bytes='' @ num_toString start @ ''-'' @ num_toString end)]\<rparr>"

definition contentRange :: "jsnum \<Rightarrow> jsnum \<Rightarrow> jsnum \<Rightarrow> string" where
  "contentRange start end fileSize =
     ''bytes '' @ num_toString start @ ''-'' @ num_toString end @ ''/'' @ num_toString fileSize"

definition unsatisfiedRange :: "jsnum \<Rightarrow> string" where
  "unsatisfiedRange fileSize = ''bytes */'' @ num_toString fileSize"

section \<open>The Express server on \<open>fetch\<close> (index.js, first part)\<close>

definition express_allowed :: "string \<Rightarrow> bool" where
  "express_allowed u =
     (prefix ''https://bcdnxw.hakunaymatata.com/'' u \<or>
      prefix ''https://valiw.hakunaymatata.com/'' u \<or>
      prefix ''https://bcdnw.hakunaymatata.com/'' u)"

text \<open>
  \<open>res.writeHead\<close> runs before the body is fetched, so a body fetch that rejects
  finds \<open>res.headersSent\<close> true and the handler's \<open>catch\<close> writes nothing more.
\<close>

definition express_pipe :: "upstream \<Rightarrow> upstream_call \<Rightarrow> resp_body" where
  "express_pipe up c = (case up c of Inl _ \<Rightarrow> Unsent | Inr _ \<Rightarrow> Piped c)"

definition express_stream_ranged ::
    "upstream \<Rightarrow> string \<Rightarrow> string \<Rightarrow> jsnum \<Rightarrow> string \<Rightarrow> outcome" where
  "express_stream_ranged up streamUrl contentType fileSize rangeHdr =
     (let (start, end) = parse_range rangeHdr fileSize
      in if js_ge start fileSize \<or> js_gt start end
         then (\<lparr>status = 416,
                 headers = [(''Content-Range'', HStr (unsatisfiedRange fileSize))],
                 body = NoBody\<rparr>,
               [headCall streamUrl])
         else (let chunkSize = js_add (js_sub end start) (Num 1)
               in (\<lparr>status = 206,
                     headers = [(''Content-Range'', HStr (contentRange start end fileSize)),
                                (''Accept-Ranges'', HStr ''bytes''),
                                (''Content-Length'', HNum chunkSize),
                                (''Content-Type'', HStr contentType)],
                     body = express_pipe up (rangeCall streamUrl start end)\<rparr>,
                   [headCall streamUrl, rangeCall streamUrl start end])))"

definition express_stream_full :: "upstream \<Rightarrow> string \<Rightarrow> string \<Rightarrow> jsnum \<Rightarrow> outcome" where
  "express_stream_full up streamUrl contentType fileSize =
     (\<lparr>status = 200,
       headers = [(''Content-Length'', HNum fileSize),
                  (''Content-Type'', HStr contentType),
                  (''Accept-Ranges'', HStr ''bytes'')],
       body = express_pipe up (getCall streamUrl)\<rparr>,
      [headCall streamUrl, getCall streamUrl])"

definition express_stream :: "upstream \<Rightarrow> request \<Rightarrow> outcome" where
  "express_stream up req =
     (case q_url req of
        None \<Rightarrow>
          (\<lparr>status = 400, headers = [],
            body = Json [(''status'', ''error''), (''message'', ''Invalid stream URL'')]\<rparr>, [])
      | Some streamUrl \<Rightarrow>
          if streamUrl = [] \<or> \<not> express_allowed streamUrl
          then (\<lparr>status = 400, headers = [],
                  body = Json [(''status'', ''error''), (''message'', ''Invalid stream URL'')]\<rparr>, [])
          else (case up (headCall streamUrl) of
                  Inl err \<Rightarrow>
                    (\<lparr>status = 500, headers = [],
                      body = Json [(''message'', ''Stream error'')]\<rparr>,
                     [headCall streamUrl])
                | Inr headResponse \<Rightarrow>
                    (let fileSize = parseInt_opt (content_length headResponse);
                         contentType = str_or (content_type headResponse) ''video/mp4''
                     in if num_falsy fileSize
                        then (\<lparr>status = 500, headers = [],
                                body = Json [(''message'', ''Could not determine file size'')]\<rparr>,
                              [headCall streamUrl])
                        else (case h_range req of
                                None \<Rightarrow> express_stream_full up streamUrl contentType fileSize
                              | Some r \<Rightarrow>
                                  if r = []
                                  then express_stream_full up streamUrl contentType fileSize
                                  else express_stream_ranged up streamUrl contentType fileSize r))))"

section \<open>The Cloudflare Worker (index.js, second part)\<close>

definition corsHeaders :: "(string \<times> hval) list" where
  "corsHeaders =
     [(''Access-Control-Allow-Origin'', HStr ''*''),
      (''Access-Control-Allow-Methods'', HStr ''GET, POST, PUT, DELETE, OPTIONS''),
      (''Access-Control-Allow-Headers'',
         HStr ''Origin, X-Requested-With, Content-Type, Accept, Authorization'')]"

definition worker_allowed :: "string \<Rightarrow> bool" where
  "worker_allowed u =
     (prefix ''https://bcdnw.hakunaymatata.com/'' u \<or>
      prefix ''https://valiw.hakunaymatata.com/'' u)"

definition worker_error :: "nat \<Rightarrow> string \<Rightarrow> (string \<times> hval) list \<Rightarrow> response" where
  "worker_error code msg extra =
     \<lparr>status = code,
      headers = extra @ (''Content-Type'', HStr ''application/json'') # corsHeaders,
      body = Json [(''status'', ''error''), (''message'', msg)]\<rparr>"

text \<open>An error thrown inside a handler reaches the \<open>catch\<close> of the exported
  \<open>fetch\<close>.\<close>

definition worker_caught :: "string \<Rightarrow> response" where
  "worker_caught msg =
     \<lparr>status = 500,
      headers = (''Content-Type'', HStr ''application/json'') # corsHeaders,
      body = Json [(''status'', ''error''), (''message'', ''Internal server error''),
                   (''error'', msg)]\<rparr>"

definition range_invalid :: "jsnum \<Rightarrow> jsnum \<Rightarrow> jsnum \<Rightarrow> bool" where
  "range_invalid start end fileSize =
     (isNaN start \<or> isNaN end \<or> js_lt start (Num 0) \<or> js_ge end fileSize \<or> js_gt start end)"

definition worker_stream_ranged ::
    "upstream \<Rightarrow> string \<Rightarrow> string \<Rightarrow> jsnum \<Rightarrow> string \<Rightarrow> outcome" where
  "worker_stream_ranged up streamUrl contentType fileSize rangeHdr =
     (let (start, end) = parse_range rangeHdr fileSize
      in if range_invalid start end fileSize
         then (worker_error 416 ''Range not satisfiable''
                 [(''Content-Range'', HStr (unsatisfiedRange fileSize))],
               [headCall streamUrl])
         else (let chunkSize = js_add (js_sub end start) (Num 1)
               in (case up (rangeCall streamUrl start end) of
                     Inl err \<Rightarrow> worker_caught err
                   | Inr _ \<Rightarrow>
                       \<lparr>status = 206,
                        headers = [(''Content-Type'', HStr contentType),
                                   (''Content-Length'', HNum chunkSize),
                                   (''Content-Range'', HStr (contentRange start end fileSize)),
                                   (''Accept-Ranges'', HStr ''bytes''),
                                   (''Cache-Control'', HStr ''no-cache'')] @ corsHeaders,
                        body = Piped (rangeCall streamUrl start end)\<rparr>,
                   [headCall streamUrl, rangeCall streamUrl start end])))"

definition worker_stream_full :: "upstream \<Rightarrow> string \<Rightarrow> string \<Rightarrow> jsnum \<Rightarrow> outcome" where
  "worker_stream_full up streamUrl contentType fileSize =
     (case up (getCall streamUrl) of
        Inl err \<Rightarrow> worker_caught err
      | Inr _ \<Rightarrow>
          \<lparr>status = 200,
           headers = [(''Content-Type'', HStr contentType),
                      (''Content-Length'', HNum fileSize),
                      (''Accept-Ranges'', HStr ''bytes''),
                      (''Cache-Control'', HStr ''no-cache'')] @ corsHeaders,
           body = Piped (getCall streamUrl)\<rparr>,
      [headCall streamUrl, getCall streamUrl])"

definition handleStream :: "upstream \<Rightarrow> request \<Rightarrow> outcome" where
  "handleStream up req =
     (case q_url req of
        None \<Rightarrow> (worker_error 400 ''Invalid stream URL'' [], [])
      | Some streamUrl \<Rightarrow>
          if streamUrl = [] \<or> \<not> worker_allowed streamUrl
          then (worker_error 400 ''Invalid stream URL'' [], [])
          else (case up (headCall streamUrl) of
                  Inl err \<Rightarrow> (worker_caught err, [headCall streamUrl])
                | Inr headResponse \<Rightarrow>
                    (let fileSize = parseInt_opt (content_length headResponse);
                         contentType = str_or (content_type headResponse) ''video/mp4''
                     in if num_falsy fileSize \<or> isNaN fileSize
                        then (worker_error 500 ''Could not determine file size'' [],
                              [headCall streamUrl])
                        else (case h_range req of
                                None \<Rightarrow> worker_stream_full up streamUrl contentType fileSize
                              | Some r \<Rightarrow>
                                  if r = []
                                  then worker_stream_full up streamUrl contentType fileSize
                                  else worker_stream_ranged up streamUrl contentType fileSize r))))"

section \<open>Download file names\<close>

text \<open>
  \<^verbatim>\<open>
  filename.replace(/[<>:"/\\|?*]/g, '').replace(/\s+/g, '_').replace(/_{2,}/g, '_').trim()
  \<close>
  The second step turns each maximal run of white space into one underscore (every
  white-space character followed by another is dropped, the last of a run is replaced);
  the third does the same with runs of underscores.
\<close>

definition hostile :: "char list" where
  "hostile = [CHR ''<'', CHR ''>'', CHR '':'', CHR 0x22, CHR ''/'', CHR 0x5C,
              CHR ''|'', CHR ''?'', CHR ''*'']"

fun ws_to_underscore :: "string \<Rightarrow> string" where
  "ws_to_underscore [] = []"
| "ws_to_underscore [c] = (if is_ws c then ''_'' else [c])"
| "ws_to_underscore (c # d # cs) =
     (if is_ws c then (if is_ws d then ws_to_underscore (d # cs)
                       else CHR ''_'' # ws_to_underscore (d # cs))
      else c # ws_to_underscore (d # cs))"

fun squeeze_underscores :: "string \<Rightarrow> string" where
  "squeeze_underscores [] = []"
| "squeeze_underscores [c] = [c]"
| "squeeze_underscores (c # d # cs) =
     (if c = CHR ''_'' \<and> d = CHR ''_'' then squeeze_underscores (d # cs)
      else c # squeeze_underscores (d # cs))"

definition sanitizeFilename :: "string \<Rightarrow> string" where
  "sanitizeFilename filename =
     trim (squeeze_underscores (ws_to_underscore (filter (\<lambda>c. c \<notin> set hostile) filename)))"

text \<open>The part of the file name all three download handlers build alike: the
  sanitized title, \<open>_SxxEyy\<close> when season and episode are both given, \<open>_quality\<close>
  when a quality is given.\<close>

definition filename_stem :: "request \<Rightarrow> string" where
  "filename_stem req =
     sanitizeFilename (str_or (q_title req) ''video'')
     @ (case (q_season req, q_episode req) of
          (Some season, Some episode) \<Rightarrow>
             if season \<noteq> [] \<and> episode \<noteq> []
             then ''_S'' @ padStart0 2 season @ ''E'' @ padStart0 2 episode
             else []
        | _ \<Rightarrow> [])
     @ (if str_or (q_quality req) [] \<noteq> [] then ''_'' @ str_or (q_quality req) [] else [])"

definition disposition :: "string \<Rightarrow> string" where
  "disposition filename = ''attachment; filename='' @ [CHR 0x22] @ filename @ [CHR 0x22]"

section \<open>Download handlers\<close>

subsection \<open>Express on \<open>fetch\<close>\<close>

text \<open>
  The handler sets its headers with \<open>res.setHeader\<close> and never sets a status, so a
  piped reply goes out with Express's default 200. When the body fetch rejects, nothing
  has been sent yet and the \<open>catch\<close> answers 500 on the same response object, which
  still carries the headers set before.
\<close>

definition express_download :: "upstream \<Rightarrow> request \<Rightarrow> outcome" where
  "express_download up req =
     (case q_url req of
        None \<Rightarrow> (\<lparr>status = 400, headers = [], body = Json [(''message'', ''No URL provided'')]\<rparr>, [])
      | Some downloadUrl \<Rightarrow>
          if downloadUrl = []
          then (\<lparr>status = 400, headers = [], body = Json [(''message'', ''No URL provided'')]\<rparr>, [])
          else (let stem = filename_stem req;
                    filename = (if suffix ''.mp4'' stem then stem else stem @ ''.mp4'')
                in case up (headCall downloadUrl) of
                     Inl err \<Rightarrow>
                       (\<lparr>status = 500, headers = [], body = Json [(''message'', err)]\<rparr>,
                        [headCall downloadUrl])
                   | Inr headResponse \<Rightarrow>
                       (let fileSize = content_length headResponse;
                            contentType = str_or (content_type headResponse) ''video/mp4'';
                            hdrs = [(''Content-Disposition'', HStr (disposition filename)),
                                    (''Content-Type'', HStr contentType)]
                                   @ (case fileSize of
                                        None \<Rightarrow> []
                                      | Some n \<Rightarrow> if n = [] then [] else [(''Content-Length'', HStr n)])
                        in (case up (getCall downloadUrl) of
                              Inl err \<Rightarrow>
                                \<lparr>status = 500, headers = hdrs, body = Json [(''message'', err)]\<rparr>
                            | Inr _ \<Rightarrow>
                                \<lparr>status = 200, headers = hdrs, body = Piped (getCall downloadUrl)\<rparr>,
                            [headCall downloadUrl, getCall downloadUrl]))))"

subsection \<open>Cloudflare Worker\<close>

definition worker_download_ranged ::
    "upstream \<Rightarrow> string \<Rightarrow> string \<Rightarrow> string \<Rightarrow> jsnum \<Rightarrow> string \<Rightarrow> outcome" where
  "worker_download_ranged up downloadUrl filename contentType fileSize rangeHdr =
     (let (start, end) = parse_range rangeHdr fileSize
      in if range_invalid start end fileSize
         then (worker_error 416 ''Range not satisfiable''
                 [(''Content-Range'', HStr (unsatisfiedRange fileSize))],
               [headCall downloadUrl])
         else (let chunkSize = js_add (js_sub end start) (Num 1)
               in (case up (rangeCall downloadUrl start end) of
                     Inl err \<Rightarrow> worker_caught err
                   | Inr _ \<Rightarrow>
                       \<lparr>status = 206,
                        headers = [(''Content-Type'', HStr contentType),
                                   (''Content-Length'', HNum chunkSize),
                                   (''Content-Range'', HStr (contentRange start end fileSize)),
                                   (''Content-Disposition'', HStr (disposition filename)),
                                   (''Accept-Ranges'', HStr ''bytes'')] @ corsHeaders,
                        body = Piped (rangeCall downloadUrl start end)\<rparr>,
                   [headCall downloadUrl, rangeCall downloadUrl start end])))"

definition worker_download_full ::
    "upstream \<Rightarrow> string \<Rightarrow> string \<Rightarrow> string \<Rightarrow> jsnum \<Rightarrow> outcome" where
  "worker_download_full up downloadUrl filename contentType fileSize =
     (case up (getCall downloadUrl) of
        Inl err \<Rightarrow> worker_caught err
      | Inr _ \<Rightarrow>
          \<lparr>status = 200,
           headers = [(''Content-Type'', HStr contentType),
                      (''Content-Length'', HNum fileSize),
                      (''Content-Disposition'', HStr (disposition filename)),
                      (''Accept-Ranges'', HStr ''bytes'')] @ corsHeaders,
           body = Piped (getCall downloadUrl)\<rparr>,
      [headCall downloadUrl, getCall downloadUrl])"

definition handleDownload :: "upstream \<Rightarrow> request \<Rightarrow> outcome" where
  "handleDownload up req =
     (case q_url req of
        None \<Rightarrow> (worker_error 400 ''Invalid download URL'' [], [])
      | Some downloadUrl \<Rightarrow>
          if downloadUrl = [] \<or> \<not> worker_allowed downloadUrl
          then (worker_error 400 ''Invalid download URL'' [], [])
          else (let filename = filename_stem req @ ''.mp4''
                in case up (headCall downloadUrl) of
                     Inl err \<Rightarrow> (worker_caught err, [headCall downloadUrl])
                   | Inr headResponse \<Rightarrow>
                       (let fileSize = parseInt_opt (content_length headResponse);
                            contentType = str_or (content_type headResponse) ''video/mp4''
                        in if num_falsy fileSize \<or> isNaN fileSize
                           then (worker_error 500 ''Could not determine file size'' [],
                                 [headCall downloadUrl])
                           else (case h_range req of
                                   None \<Rightarrow>
                                     worker_download_full up downloadUrl filename contentType fileSize
                                 | Some r \<Rightarrow>
                                     if r = []
                                     then worker_download_full up downloadUrl filename
                                            contentType fileSize
                                     else worker_download_ranged up downloadUrl filename
                                            contentType fileSize r))))"

section \<open>The Express server on axios (second source file)\<close>

definition axios_error :: "nat \<Rightarrow> string \<Rightarrow> response" where
  "axios_error code msg =
     \<lparr>status = code, headers = [], body = Json [(''status'', ''error''), (''message'', msg)]\<rparr>"

definition axios_caught :: "string \<Rightarrow> string \<Rightarrow> response" where
  "axios_caught msg err =
     \<lparr>status = 500, headers = [],
      body = Json [(''status'', ''error''), (''message'', msg), (''error'', err)]\<rparr>"

text \<open>The regular expression \<^verbatim>\<open>/bytes \d+-\d+\/(\d+)/\<close>: \<open>match_total_at\<close> tries it at
  the head of the string, \<open>match_total\<close> at each position from the left; the result is
  the text of the group.\<close>

definition match_total_at :: "string \<Rightarrow> string option" where
  "match_total_at s =
     (if \<not> prefix ''bytes '' s then None
      else (let r1 = drop 6 s; d1 = takeWhile is_digit r1; r2 = dropWhile is_digit r1
            in if d1 = [] then None
               else (case r2 of
                       [] \<Rightarrow> None
                     | c # r3 \<Rightarrow>
                         if c \<noteq> CHR ''-'' then None
                         else (let d2 = takeWhile is_digit r3; r4 = dropWhile is_digit r3
                               in if d2 = [] then None
                                  else (case r4 of
                                          [] \<Rightarrow> None
                                        | c' # r5 \<Rightarrow>
                                            if c' \<noteq> CHR ''/'' then None
                                            else (let d3 = takeWhile is_digit r5
                                                  in if d3 = [] then None else Some d3))))))"

fun match_total :: "string \<Rightarrow> string option" where
  "match_total [] = None"
| "match_total (c # cs) =
     (case match_total_at (c # cs) of
        Some g \<Rightarrow> Some g
      | None \<Rightarrow> match_total cs)"

text \<open>
  The size probe: HEAD first; when it rejects, a GET of \<open>bytes=0-0\<close> whose
  \<open>Content-Range\<close> gives the total. \<open>fileSize\<close> starts \<open>undefined\<close> and may stay
  so; the only test applied to it afterwards is \<open>!fileSize || isNaN(fileSize)\<close>, true
  for \<open>undefined\<close> as for \<open>NaN\<close>, so \<open>NaN\<close> stands for both. A rejected second probe
  is thrown to the handler's \<open>catch\<close>.
\<close>

definition axios_probe :: "upstream \<Rightarrow> string \<Rightarrow> (string + jsnum \<times> string) \<times> upstream_call list" where
  "axios_probe up streamUrl =
     (case up (headCall streamUrl) of
        Inr headResponse \<Rightarrow>
          (Inr (parseInt_opt (content_length headResponse),
                str_or (content_type headResponse) ''video/mp4''),
           [headCall streamUrl])
      | Inl _ \<Rightarrow>
          (case up (rangeCall streamUrl (Num 0) (Num 0)) of
             Inl err \<Rightarrow> (Inl err, [headCall streamUrl, rangeCall streamUrl (Num 0) (Num 0)])
           | Inr testResponse \<Rightarrow>
               (Inr (case content_range testResponse of
                       None \<Rightarrow> NaN
                     | Some cr \<Rightarrow> (case match_total cr of None \<Rightarrow> NaN | Some g \<Rightarrow> parseInt g),
                     str_or (content_type testResponse) ''video/mp4''),
                [headCall streamUrl, rangeCall streamUrl (Num 0) (Num 0)])))"

definition axios_stream_ranged ::
    "upstream \<Rightarrow> string \<Rightarrow> string \<Rightarrow> jsnum \<Rightarrow> string \<Rightarrow> upstream_call list \<Rightarrow> outcome" where
  "axios_stream_ranged up streamUrl contentType fileSize rangeHdr probes =
     (let (start, end) = parse_range rangeHdr fileSize
      in if range_invalid start end fileSize
         then (\<lparr>status = 416,
                 headers = [(''Content-Range'', HStr (unsatisfiedRange fileSize))],
                 body = Json [(''status'', ''error''), (''message'', ''Range not satisfiable'')]\<rparr>,
               probes)
         else (let chunkSize = js_add (js_sub end start) (Num 1)
               in (case up (rangeCall streamUrl start end) of
                     Inl err \<Rightarrow> axios_caught ''Failed to stream video'' err
                   | Inr _ \<Rightarrow>
                       \<lparr>status = 206,
                        headers = [(''Content-Type'', HStr contentType),
                                   (''Content-Length'', HNum chunkSize),
                                   (''Content-Range'', HStr (contentRange start end fileSize)),
                                   (''Accept-Ranges'', HStr ''bytes''),
                                   (''Cache-Control'', HStr ''no-cache'')],
                        body = Piped (rangeCall streamUrl start end)\<rparr>,
                   probes @ [rangeCall streamUrl start end])))"

definition axios_stream_full ::
    "upstream \<Rightarrow> string \<Rightarrow> string \<Rightarrow> jsnum \<Rightarrow> upstream_call list \<Rightarrow> outcome" where
  "axios_stream_full up streamUrl contentType fileSize probes =
     (case up (getCall streamUrl) of
        Inl err \<Rightarrow> axios_caught ''Failed to stream video'' err
      | Inr _ \<Rightarrow>
          \<lparr>status = 200,
           headers = [(''Content-Type'', HStr contentType),
                      (''Content-Length'', HNum fileSize),
                      (''Accept-Ranges'', HStr ''bytes''),
                      (''Cache-Control'', HStr ''no-cache'')],
           body = Piped (getCall streamUrl)\<rparr>,
      probes @ [getCall streamUrl])"

definition axios_stream :: "upstream \<Rightarrow> request \<Rightarrow> outcome" where
  "axios_stream up req =
     (let streamUrl = str_or (q_url req) []
      in if streamUrl = [] \<or> \<not> worker_allowed streamUrl
         then (axios_error 400 ''Invalid stream URL'', [])
         else (case axios_probe up streamUrl of
                 (Inl err, probes) \<Rightarrow> (axios_caught ''Failed to stream video'' err, probes)
               | (Inr (fileSize, contentType), probes) \<Rightarrow>
                   if num_falsy fileSize \<or> isNaN fileSize
                   then (axios_caught ''Failed to stream video'' ''Could not determine file size'',
                         probes)
                   else (case h_range req of
                           None \<Rightarrow> axios_stream_full up streamUrl contentType fileSize probes
                         | Some r \<Rightarrow>
                             if r = []
                             then axios_stream_full up streamUrl contentType fileSize probes
                             else axios_stream_ranged up streamUrl contentType fileSize r probes)))"

fun opt_hval :: "string option \<Rightarrow> hval" where
  "opt_hval None = HUndefined"
| "opt_hval (Some s) = HStr s"

definition axios_download :: "upstream \<Rightarrow> request \<Rightarrow> outcome" where
  "axios_download up req =
     (case q_url req of
        None \<Rightarrow> (axios_error 400 ''Invalid download URL'', [])
      | Some downloadUrl \<Rightarrow>
          if downloadUrl = [] \<or> \<not> worker_allowed downloadUrl
          then (axios_error 400 ''Invalid download URL'', [])
          else (let filename = filename_stem req @ ''.mp4''
                in (case up (getCall downloadUrl) of
                      Inl err \<Rightarrow> axios_caught ''Failed to proxy download'' err
                    | Inr response \<Rightarrow>
                        \<lparr>status = 200,
                         headers = [(''Content-Type'', opt_hval (content_type response)),
                                    (''Content-Length'', opt_hval (content_length response)),
                                    (''Content-Disposition'', HStr (disposition filename))],
                         body = Piped (getCall downloadUrl)\<rparr>,
                    [getCall downloadUrl])))"

section \<open>The session-cookie cache\<close>

subsection \<open>\<open>getCookies\<close> of the two \<open>fetch\<close> variants\<close>

text \<open>The module variables \<open>cookieCache\<close> (initially \<open>null\<close>) and
  \<open>cookieCacheTime\<close> (initially 0); times are milliseconds as \<open>Date.now()\<close> gives
  them.\<close>

record cookie_state =
  cookieCache :: "string option"
  cookieCacheTime :: int

definition initial_cookie_state :: cookie_state where
  "initial_cookie_state = \<lparr>cookieCache = None, cookieCacheTime = 0\<rparr>"

definition COOKIE_CACHE_DURATION :: int where
  "COOKIE_CACHE_DURATION = 3600000"

text \<open>
  What the code can observe of the bootstrap reply's \<open>Headers\<close> object:
  \<open>getSetCookie()\<close> when the runtime provides the method, \<open>get('set-cookie')\<close>, and
  the entries the object iterates over.
\<close>

record boot_headers =
  getSetCookie :: "string list option"
  get_set_cookie :: "string option"
  header_entries :: "(string \<times> string) list"

definition express_setCookieHeaders :: "boot_headers \<Rightarrow> string list" where
  "express_setCookieHeaders h =
     (case getSetCookie h of
        Some l \<Rightarrow> l
      | None \<Rightarrow> (case get_set_cookie h of
                   None \<Rightarrow> []
                 | Some c \<Rightarrow> if c = [] then [] else [c]))"

text \<open>\<open>toLowerCase\<close> on a header name, which is an ASCII token.\<close>

definition toLowerCase :: "string \<Rightarrow> string" where
  "toLowerCase s =
     map (\<lambda>c. if 65 \<le> (of_char c :: nat) \<and> (of_char c :: nat) \<le> 90
              then char_of ((of_char c :: nat) + 32) else c) s"

definition worker_setCookieHeaders :: "boot_headers \<Rightarrow> string list" where
  "worker_setCookieHeaders h =
     (case getSetCookie h of
        Some l \<Rightarrow> l
      | None \<Rightarrow> map snd (filter (\<lambda>(key, v). toLowerCase key = ''set-cookie'')
                            (header_entries h)))"

text \<open>\<open>cookie.split(';')[0].trim()\<close>; \<open>split\<close> always returns a first part.\<close>

definition cookie_pair :: "string \<Rightarrow> string" where
  "cookie_pair cookie =
     (case split_js CHR '';'' cookie of
        [] \<Rightarrow> []
      | p # _ \<Rightarrow> trim p)"

definition joined_cookies :: "string list \<Rightarrow> string" where
  "joined_cookies setCookieHeaders = join ''; '' (map cookie_pair setCookieHeaders)"

text \<open>
  One call of \<open>getCookies\<close> at time \<open>now\<close>. \<open>boot\<close> is what the bootstrap
  \<open>fetch\<close> does if it is issued: it rejects (\<open>Inl\<close>) or yields the reply's headers.
  The result is the returned value (\<open>None\<close> for \<open>null\<close>), the module state afterwards
  and the number of bootstrap calls issued.
\<close>

definition getCookies_with ::
    "(boot_headers \<Rightarrow> string list) \<Rightarrow> string + boot_headers \<Rightarrow> int \<Rightarrow> cookie_state
       \<Rightarrow> string option \<times> cookie_state \<times> nat" where
  "getCookies_with readHeaders boot now st =
     (if str_truthy (cookieCache st) \<and> now - cookieCacheTime st < COOKIE_CACHE_DURATION
      then (cookieCache st, st, 0)
      else (case boot of
              Inl err \<Rightarrow> (None, st, 1)
            | Inr h \<Rightarrow>
                (let setCookieHeaders = readHeaders h
                 in if length setCookieHeaders > 0
                    then (Some (joined_cookies setCookieHeaders),
                          \<lparr>cookieCache = Some (joined_cookies setCookieHeaders),
                           cookieCacheTime = now\<rparr>, 1)
                    else (cookieCache st, st, 1))))"

definition express_getCookies ::
    "string + boot_headers \<Rightarrow> int \<Rightarrow> cookie_state \<Rightarrow> string option \<times> cookie_state \<times> nat" where
  "express_getCookies = getCookies_with express_setCookieHeaders"

definition worker_getCookies ::
    "string + boot_headers \<Rightarrow> int \<Rightarrow> cookie_state \<Rightarrow> string option \<times> cookie_state \<times> nat" where
  "worker_getCookies = getCookies_with worker_setCookieHeaders"

definition DEFAULT_HEADERS :: "(string \<times> string) list" where
  "DEFAULT_HEADERS =
     [(''X-Client-Info'', ''{'' @ [CHR 0x22] @ ''timezone'' @ [CHR 0x22] @ '':''
                            @ [CHR 0x22] @ ''Africa/Nairobi'' @ [CHR 0x22] @ ''}''),
      (''Accept-Language'', ''en-US,en;q=0.5''),
      (''Accept'', ''application/json''),
      (''User-Agent'', ''okhttp/4.12.0''),
      (''Referer'', ''https://h5.aoneroom.com''),
      (''Host'', ''h5.aoneroom.com''),
      (''Connection'', ''keep-alive''),
      (''X-Forwarded-For'', ''1.1.1.1''),
      (''CF-Connecting-IP'', ''1.1.1.1''),
      (''X-Real-IP'', ''1.1.1.1'')]"

text \<open>Object spread \<open>{...a, ...b}\<close>: the keys of \<open>a\<close> in order, overwritten
  in place by \<open>b\<close>, then the new keys of \<open>b\<close>.\<close>

definition spread :: "(string \<times> string) list \<Rightarrow> (string \<times> string) list \<Rightarrow> (string \<times> string) list" where
  "spread a b = foldl (\<lambda>acc (k, v). AList.update k v acc) a b"

text \<open>
  A catalog reply after \<open>response.json()\<close>: the whole document and its \<open>data\<close>
  member when that is truthy, both as JSON text. \<open>api\<close> below stands for the catalog
  \<open>fetch\<close> followed by \<open>response.json()\<close>, as a function of the request headers;
  \<open>Inl\<close> when either rejects.
\<close>

record api_reply =
  document :: string
  data_member :: "string option"

definition processApiResponse :: "api_reply \<Rightarrow> string" where
  "processApiResponse r = (case data_member r of Some d \<Rightarrow> d | None \<Rightarrow> document r)"

type_synonym catalog = "(string \<times> string) list \<Rightarrow> string + api_reply"

definition makeApiRequest ::
    "(boot_headers \<Rightarrow> string list) \<Rightarrow> string + boot_headers \<Rightarrow> catalog \<Rightarrow> int \<Rightarrow> cookie_state
       \<Rightarrow> (string \<times> string) list \<Rightarrow> (string + api_reply) \<times> cookie_state \<times> nat" where
  "makeApiRequest readHeaders boot api now st optHeaders =
     (let (cookies, st', n) = getCookies_with readHeaders boot now st;
          hdrs = spread DEFAULT_HEADERS optHeaders;
          hdrs' = (case cookies of
                     None \<Rightarrow> hdrs
                   | Some c \<Rightarrow> if c = [] then hdrs else AList.update ''Cookie'' c hdrs)
      in (api hdrs', st', n))"

text \<open>\<open>GET /api/homepage\<close> of the Express server on \<open>fetch\<close>.\<close>

definition express_homepage ::
    "string + boot_headers \<Rightarrow> catalog \<Rightarrow> int \<Rightarrow> cookie_state \<Rightarrow> response \<times> cookie_state \<times> nat" where
  "express_homepage boot api now st =
     (case makeApiRequest express_setCookieHeaders boot api now st [] of
        (Inl err, st', n) \<Rightarrow>
          (\<lparr>status = 500, headers = [],
            body = Json [(''status'', ''error''), (''message'', err)]\<rparr>, st', n)
      | (Inr r, st', n) \<Rightarrow>
          (\<lparr>status = 200, headers = [],
            body = Json [(''status'', ''success''), (''data'', processApiResponse r)]\<rparr>, st', n))"

text \<open>\<open>handleHomepage\<close> of the Worker, under the \<open>catch\<close> of the exported
  \<open>fetch\<close>.\<close>

definition handleHomepage ::
    "string + boot_headers \<Rightarrow> catalog \<Rightarrow> int \<Rightarrow> cookie_state \<Rightarrow> response \<times> cookie_state \<times> nat" where
  "handleHomepage boot api now st =
     (case makeApiRequest worker_setCookieHeaders boot api now st [] of
        (Inl err, st', n) \<Rightarrow> (worker_caught err, st', n)
      | (Inr r, st', n) \<Rightarrow>
          (\<lparr>status = 200,
            headers = (''Content-Type'', HStr ''application/json'') # corsHeaders,
            body = Json [(''status'', ''success''), (''data'', processApiResponse r)]\<rparr>, st', n))"

subsection \<open>\<open>ensureCookiesAreAssigned\<close> of the axios variant\<close>

text \<open>
  The axios server keeps its cookies in a cookie jar owned by the HTTP client; the
  module itself holds only the flag \<open>cookiesInitialized\<close> and the bootstrap payload
  \<open>movieboxAppInfo\<close>. There is no clock and no expiry. For this server \<open>document\<close>
  is the text of \<open>response.data || response\<close> and \<open>data_member\<close> that of
  \<open>response.data.data\<close>.
\<close>

record axios_session =
  cookiesInitialized :: bool
  movieboxAppInfo :: "string option"

definition initial_axios_session :: axios_session where
  "initial_axios_session = \<lparr>cookiesInitialized = False, movieboxAppInfo = None\<rparr>"

text \<open>One call: \<open>Inl\<close> is the rethrown error; the last component counts bootstrap
  calls.\<close>

definition ensureCookiesAreAssigned ::
    "string + api_reply \<Rightarrow> axios_session \<Rightarrow> (string + bool) \<times> axios_session \<times> nat" where
  "ensureCookiesAreAssigned boot s =
     (if \<not> cookiesInitialized s
      then (case boot of
              Inl err \<Rightarrow> (Inl err, s, 1)
            | Inr r \<Rightarrow>
                (Inr True,
                 \<lparr>cookiesInitialized = True, movieboxAppInfo = Some (processApiResponse r)\<rparr>, 1))
      else (Inr (cookiesInitialized s), s, 0))"

text \<open>
  \<^verbatim>\<open>{ url, headers: { ...DEFAULT_HEADERS, ...options.headers }, withCredentials: true, ...options }\<close>:
  the final \<open>...options\<close> puts \<open>options.headers\<close>, when the caller gave any, over the
  merged headers.
\<close>

definition axios_makeApiRequest ::
    "string + api_reply \<Rightarrow> catalog \<Rightarrow> axios_session \<Rightarrow> (string \<times> string) list option
       \<Rightarrow> (string + api_reply) \<times> axios_session \<times> nat" where
  "axios_makeApiRequest boot api s optHeaders =
     (case ensureCookiesAreAssigned boot s of
        (Inl err, s', n) \<Rightarrow> (Inl err, s', n)
      | (Inr _, s', n) \<Rightarrow>
          (api (case optHeaders of None \<Rightarrow> DEFAULT_HEADERS | Some hs \<Rightarrow> hs), s', n))"

definition axios_homepage ::
    "string + api_reply \<Rightarrow> catalog \<Rightarrow> axios_session \<Rightarrow> response \<times> axios_session \<times> nat" where
  "axios_homepage boot api s =
     (case axios_makeApiRequest boot api s None of
        (Inl err, s', n) \<Rightarrow> (axios_caught ''Failed to fetch homepage content'' err, s', n)
      | (Inr r, s', n) \<Rightarrow>
          (\<lparr>status = 200, headers = [],
            body = Json [(''status'', ''success''), (''data'', processApiResponse r)]\<rparr>, s', n))"

section \<open>Stub CDNs and requests used in the examples\<close>

text \<open>A CDN that answers every call with the given \<open>Content-Length\<close> text, and a
  stream request for an allowed URL with the given \<open>Range\<close> header.\<close>

definition cdn_of_length :: "string \<Rightarrow> upstream" where
  "cdn_of_length n c =
     Inr \<lparr>content_length = Some n, content_type = Some ''video/mp4'', content_range = None\<rparr>"

definition stream_request :: "string option \<Rightarrow> request" where
  "stream_request r =
     \<lparr>q_url = Some ''https://valiw.hakunaymatata.com/v.mp4'', q_title = None, q_season = None,
      q_episode = None, q_quality = None, h_range = r\<rparr>"

text \<open>A download request with the metadata of an episode, for the given URL and
  \<open>Range\<close> header.\<close>

definition download_request :: "string \<Rightarrow> string option \<Rightarrow> request" where
  "download_request u r =
     \<lparr>q_url = Some u, q_title = Some ''Wednesday'', q_season = Some ''1'',
      q_episode = Some ''1'', q_quality = Some ''720p'', h_range = r\<rparr>"

text \<open>Bootstrap replies on a runtime that provides \<open>getSetCookie()\<close>, and a catalog
  that answers every request with the same document.\<close>

definition boot_reply :: "string list \<Rightarrow> boot_headers" where
  "boot_reply cookies =
     \<lparr>getSetCookie = Some cookies,
      get_set_cookie = (if cookies = [] then None else Some (join '', '' cookies)),
      header_entries = map (\<lambda>c. (''set-cookie'', c)) cookies\<rparr>"

definition catalog_ok :: catalog where
  "catalog_ok hdrs = Inr \<lparr>document = ''{}'', data_member = None\<rparr>"

section \<open>Properties\<close>

subsection \<open>JavaScript helpers\<close>














lemma split_js_first:
  "\<exists>rest. split_js sep s = takeWhile (\<lambda>x. x \<noteq> sep) s # rest"
  by (induction s) (auto split: list.splits)



text \<open>Values of the examples.\<close>

lemma parseInt_zero: "parseInt ''0'' = Num 0"
  by code_simp

lemma parseInt_1000: "parseInt ''1000'' = Num 1000"
  by code_simp






text \<open>The stub CDN and the stream request of the examples.\<close>

lemma stream_request_facts:
  "q_url (stream_request rg) = Some ''https://valiw.hakunaymatata.com/v.mp4''"
  "h_range (stream_request rg) = rg"
  "worker_allowed ''https://valiw.hakunaymatata.com/v.mp4''"
  "express_allowed ''https://valiw.hakunaymatata.com/v.mp4''"
  by (simp_all add: stream_request_def worker_allowed_def express_allowed_def)

lemma cdn_of_length_reply:
  "cdn_of_length n c
     = Inr \<lparr>content_length = Some n, content_type = Some ''video/mp4'', content_range = None\<rparr>"
  by (simp add: cdn_of_length_def)

lemma cdn_sizes:
  "parseInt_opt (content_length \<lparr>content_length = Some ''0'', content_type = Some ''video/mp4'',
                                 content_range = None\<rparr>) = Num 0"
  "parseInt_opt (content_length \<lparr>content_length = Some ''1000'', content_type = Some ''video/mp4'',
                                 content_range = None\<rparr>) = Num 1000"
  using parseInt_zero parseInt_1000 by simp_all

subsection \<open>The stream handlers, branch by branch\<close>

lemma worker_allowed_nonempty: "worker_allowed u \<Longrightarrow> u \<noteq> []"
  by (auto simp: worker_allowed_def)

lemma express_allowed_nonempty: "express_allowed u \<Longrightarrow> u \<noteq> []"
  by (auto simp: express_allowed_def)


text \<open>A probe that yields no usable size.\<close>

lemma express_stream_no_size:
  assumes "q_url req = Some u" "express_allowed u" "u \<noteq> []" "up (headCall u) = Inr h"
      and "num_falsy (parseInt_opt (content_length h))"
  shows "express_stream up req =
           (\<lparr>status = 500, headers = [],
             body = Json [(''message'', ''Could not determine file size'')]\<rparr>, [headCall u])"
  using assms by (simp add: express_stream_def)

lemma handleStream_no_size:
  assumes "q_url req = Some u" "worker_allowed u" "up (headCall u) = Inr h"
      and "num_falsy (parseInt_opt (content_length h))"
  shows "handleStream up req =
           (worker_error 500 ''Could not determine file size'' [], [headCall u])"
  using assms worker_allowed_nonempty[of u] by (simp add: handleStream_def)

lemma axios_stream_no_size:
  assumes "q_url req = Some u" "worker_allowed u" "up (headCall u) = Inr h"
      and "num_falsy (parseInt_opt (content_length h))"
  shows "axios_stream up req =
           (axios_caught ''Failed to stream video'' ''Could not determine file size'',
            [headCall u])"
  using assms worker_allowed_nonempty[of u] by (simp add: axios_stream_def axios_probe_def)


lemma handleStream_sized:
  assumes "q_url req = Some u" "worker_allowed u" "up (headCall u) = Inr h"
      and "parseInt_opt (content_length h) = Num N" "N \<noteq> 0"
  shows "handleStream up req =
           (case h_range req of
              None \<Rightarrow> worker_stream_full up u (str_or (content_type h) ''video/mp4'') (Num N)
            | Some r \<Rightarrow>
                if r = []
                then worker_stream_full up u (str_or (content_type h) ''video/mp4'') (Num N)
                else worker_stream_ranged up u (str_or (content_type h) ''video/mp4'') (Num N) r)"
  using assms worker_allowed_nonempty[of u] by (simp add: handleStream_def Let_def)

lemma axios_stream_sized:
  assumes "q_url req = Some u" "worker_allowed u" "up (headCall u) = Inr h"
      and "parseInt_opt (content_length h) = Num N" "N \<noteq> 0"
  shows "axios_stream up req =
           (case h_range req of
              None \<Rightarrow> axios_stream_full up u (str_or (content_type h) ''video/mp4'') (Num N)
                        [headCall u]
            | Some r \<Rightarrow>
                if r = []
                then axios_stream_full up u (str_or (content_type h) ''video/mp4'') (Num N)
                       [headCall u]
                else axios_stream_ranged up u (str_or (content_type h) ''video/mp4'') (Num N) r
                       [headCall u])"
  using assms worker_allowed_nonempty[of u]
  by (simp add: axios_stream_def axios_probe_def Let_def)





lemma worker_stream_ranged_416:
  assumes "parse_range r fileSize = (a, b)" "range_invalid a b fileSize"
  shows "worker_stream_ranged up u ct fileSize r =
           (worker_error 416 ''Range not satisfiable''
              [(''Content-Range'', HStr (unsatisfiedRange fileSize))], [headCall u])"
  using assms by (simp add: worker_stream_ranged_def)

lemma axios_stream_ranged_416:
  assumes "parse_range r fileSize = (a, b)" "range_invalid a b fileSize"
  shows "axios_stream_ranged up u ct fileSize r probes =
           (\<lparr>status = 416,
             headers = [(''Content-Range'', HStr (unsatisfiedRange fileSize))],
             body = Json [(''status'', ''error''), (''message'', ''Range not satisfiable'')]\<rparr>,
            probes)"
  using assms by (simp add: axios_stream_ranged_def)

subsection \<open>The allow-list\<close>


lemma express_stream_rejects:
  assumes "\<And>u. q_url req = Some u \<Longrightarrow> \<not> express_allowed u"
  shows "status (fst (express_stream up req)) = 400 \<and> snd (express_stream up req) = []"
  using assms by (auto simp: express_stream_def split: option.splits)

lemma siblings_refuse_other_hosts:
  "handleDownload (cdn_of_length ''1000'') (download_request ''https://evil.example/x.mp4'' None)
     = (worker_error 400 ''Invalid download URL'' [], [])
   \<and> axios_download (cdn_of_length ''1000'') (download_request ''https://evil.example/x.mp4'' None)
     = (axios_error 400 ''Invalid download URL'', [])
   \<and> status (fst (express_stream (cdn_of_length ''1000'')
                    (download_request ''https://evil.example/x.mp4'' None))) = 400
   \<and> snd (express_stream (cdn_of_length ''1000'')
             (download_request ''https://evil.example/x.mp4'' None)) = []"
  by code_simp

text \<open>
  Claim C1. The claim asks every stream and download handler to answer 400, with no
  upstream call, when \<open>url\<close> does not begin with an allowed CDN origin. The download
  handler of the Express server on \<open>fetch\<close> only tests that \<open>url\<close> is not empty: for
  \<open>https://evil.example/x.mp4\<close> it issues the HEAD and the GET and pipes the reply with
  status 200.
\<close>

theorem express_download_open_relay:
  "status (fst (express_download (cdn_of_length ''1000'')
                  (download_request ''https://evil.example/x.mp4'' None))) = 200
   \<and> snd (express_download (cdn_of_length ''1000'')
             (download_request ''https://evil.example/x.mp4'' None))
        = [headCall ''https://evil.example/x.mp4'', getCall ''https://evil.example/x.mp4'']
   \<and> \<not> express_allowed ''https://evil.example/x.mp4''"
  by code_simp

theorem express_download_open_relay_witness:
  "status (fst (express_download (cdn_of_length ''1000'')
                  (download_request ''https://evil.example/x.mp4'' None))) \<noteq> 400
   \<and> snd (express_download (cdn_of_length ''1000'')
             (download_request ''https://evil.example/x.mp4'' None)) \<noteq> []"
  using express_download_open_relay by simp

subsection \<open>Range validation\<close>

text \<open>
  The Worker and the axios server refuse every range whose resolved bounds fail the
  test \<open>range_invalid\<close>: a \<open>NaN\<close> bound, a negative start, an end at or past the
  length, a start past the end.
\<close>

lemma siblings_reject_invalid_ranges:
  assumes url: "q_url req = Some u" "worker_allowed u"
      and hd: "up (headCall u) = Inr h"
      and size: "parseInt_opt (content_length h) = Num N" "N \<noteq> 0"
      and rg: "h_range req = Some r" "r \<noteq> []"
      and bad: "parse_range r (Num N) = (a, b)" "range_invalid a b (Num N)"
  shows "status (fst (handleStream up req)) = 416"
    and "map_of (headers (fst (handleStream up req))) ''Content-Range''
           = Some (HStr (unsatisfiedRange (Num N)))"
    and "status (fst (axios_stream up req)) = 416"
    and "map_of (headers (fst (axios_stream up req))) ''Content-Range''
           = Some (HStr (unsatisfiedRange (Num N)))"
    and "snd (handleStream up req) = [headCall u]"
    and "snd (axios_stream up req) = [headCall u]"
proof -
  have W: "handleStream up req
             = worker_stream_ranged up u (str_or (content_type h) ''video/mp4'') (Num N) r"
    using handleStream_sized[where up = up, OF url hd size] rg by simp
  have A: "axios_stream up req
             = axios_stream_ranged up u (str_or (content_type h) ''video/mp4'') (Num N) r
                 [headCall u]"
    using axios_stream_sized[where up = up, OF url hd size] rg by simp
  note W' = worker_stream_ranged_416[where up = up, OF bad]
   and A' = axios_stream_ranged_416[where up = up, OF bad]
  show "status (fst (handleStream up req)) = 416"
    and "map_of (headers (fst (handleStream up req))) ''Content-Range''
           = Some (HStr (unsatisfiedRange (Num N)))"
    and "snd (handleStream up req) = [headCall u]"
    unfolding W W' by (simp_all add: worker_error_def)
  show "status (fst (axios_stream up req)) = 416"
    and "map_of (headers (fst (axios_stream up req))) ''Content-Range''
           = Some (HStr (unsatisfiedRange (Num N)))"
    and "snd (axios_stream up req) = [headCall u]"
    unfolding A A' by simp_all
qed

lemma siblings_refuse_past_the_end:
  "status (fst (handleStream (cdn_of_length ''1000'') (stream_request (Some ''bytes=0-2000'')))) = 416
   \<and> status (fst (axios_stream (cdn_of_length ''1000'') (stream_request (Some ''bytes=0-2000'')))) = 416
   \<and> map_of (headers (fst (handleStream (cdn_of_length ''1000'')
                               (stream_request (Some ''bytes=0-2000''))))) ''Content-Range''
        = Some (HStr ''bytes */1000'')"
  by code_simp

text \<open>
  Claim C2. The claim asks for 416 with \<open>Content-Range: bytes */N\<close> whenever the end is at
  or past the length. The stream handler of the Express server on \<open>fetch\<close> tests only
  \<open>start >= fileSize || start > end\<close>: for \<open>Range: bytes=0-2000\<close> against 1000 bytes it
  answers 206 with \<open>Content-Range: bytes 0-2000/1000\<close> and \<open>Content-Length: 2001\<close>.
\<close>

theorem express_stream_serves_past_the_end:
  "status (fst (express_stream (cdn_of_length ''1000'') (stream_request (Some ''bytes=0-2000'')))) = 206
   \<and> map_of (headers (fst (express_stream (cdn_of_length ''1000'')
                               (stream_request (Some ''bytes=0-2000''))))) ''Content-Range''
        = Some (HStr ''bytes 0-2000/1000'')
   \<and> map_of (headers (fst (express_stream (cdn_of_length ''1000'')
                               (stream_request (Some ''bytes=0-2000''))))) ''Content-Length''
        = Some (HNum (Num 2001))"
  by code_simp

theorem express_stream_serves_past_the_end_witness:
  "status (fst (express_stream (cdn_of_length ''1000'') (stream_request (Some ''bytes=0-2000''))))
     \<noteq> 416"
  using express_stream_serves_past_the_end by simp

text \<open>
  In all three stream handlers a start that does not parse, with no end given, takes the
  suffix branch with the defaulted end \<open>N - 1\<close> and is served as the window from byte 1.
\<close>

lemma unparsable_start_is_served:
  "status (fst (express_stream (cdn_of_length ''1000'') (stream_request (Some ''bytes=abc'')))) = 206
   \<and> status (fst (handleStream (cdn_of_length ''1000'') (stream_request (Some ''bytes=abc'')))) = 206
   \<and> status (fst (axios_stream (cdn_of_length ''1000'') (stream_request (Some ''bytes=abc'')))) = 206
   \<and> map_of (headers (fst (handleStream (cdn_of_length ''1000'')
                               (stream_request (Some ''bytes=abc''))))) ''Content-Range''
        = Some (HStr ''bytes 1-999/1000'')"
  by code_simp

text \<open>
  Its shorter test also lets the Express handler serve a range whose end does not parse,
  with \<open>NaN\<close> in its framing headers.
\<close>

lemma express_serves_nan_end:
  "status (fst (express_stream (cdn_of_length ''1000'') (stream_request (Some ''bytes=5-abc'')))) = 206
   \<and> map_of (headers (fst (express_stream (cdn_of_length ''1000'')
                               (stream_request (Some ''bytes=5-abc''))))) ''Content-Range''
        = Some (HStr ''bytes 5-NaN/1000'')
   \<and> map_of (headers (fst (express_stream (cdn_of_length ''1000'')
                               (stream_request (Some ''bytes=5-abc''))))) ''Content-Length''
        = Some (HNum NaN)"
  by code_simp

subsection \<open>Suffix ranges\<close>




text \<open>
  For \<open>K > N\<close> the Express handler, which has no test for a negative start, serves the
  window with a negative first byte.
\<close>

lemma express_serves_negative_start:
  "status (fst (express_stream (cdn_of_length ''1000'') (stream_request (Some ''bytes=-1001'')))) = 206
   \<and> map_of (headers (fst (express_stream (cdn_of_length ''1000'')
                               (stream_request (Some ''bytes=-1001''))))) ''Content-Range''
        = Some (HStr ''bytes -1-999/1000'')"
  by code_simp

subsection \<open>Framing of the served window\<close>



subsection \<open>Requests without a range\<close>



subsection \<open>A resource of length zero\<close>

text \<open>
  Claim C10. When the HEAD probe succeeds and its \<open>Content-Length\<close> parses to 0, each
  of the three stream handlers, for a URL on its own allow-list, answers 500 after that one
  upstream call, and its whole outcome is the one it produces when the reply carries no
  \<open>Content-Length\<close> at all: a resource of length zero is never served.
\<close>

theorem zero_length_is_metadata_unavailable:
  assumes variant: "(handler = express_stream \<and> allowed = express_allowed)
                    \<or> (handler = handleStream \<and> allowed = worker_allowed)
                    \<or> (handler = axios_stream \<and> allowed = worker_allowed)"
      and url: "q_url req = Some u" "allowed u"
      and hd: "up (headCall u) = Inr h"
      and zero: "parseInt_opt (content_length h) = Num 0"
      and missing: "up' = up(headCall u := Inr (h\<lparr>content_length := None\<rparr>))"
  shows "status (fst (handler up req)) = 500
       \<and> snd (handler up req) = [headCall u]
       \<and> handler up req = handler up' req"
proof -
  have z: "num_falsy (parseInt_opt (content_length h))"
    using zero by simp
  have hd': "up' (headCall u) = Inr (h\<lparr>content_length := None\<rparr>)"
    and z': "num_falsy (parseInt_opt (content_length (h\<lparr>content_length := None\<rparr>)))"
    using missing by simp_all
  from variant show ?thesis
  proof (elim disjE conjE)
    assume v: "handler = express_stream" "allowed = express_allowed"
    then have a: "express_allowed u" using url(2) by simp
    note ne = express_allowed_nonempty[OF a]
    show ?thesis
      unfolding v
      by (simp add: express_stream_no_size[where up = up, OF url(1) a ne hd z]
                    express_stream_no_size[where up = up', OF url(1) a ne hd' z'])
  next
    assume v: "handler = handleStream" "allowed = worker_allowed"
    then have a: "worker_allowed u" using url(2) by simp
    show ?thesis
      unfolding v
      by (simp add: handleStream_no_size[where up = up, OF url(1) a hd z]
                    handleStream_no_size[where up = up', OF url(1) a hd' z'] worker_error_def)
  next
    assume v: "handler = axios_stream" "allowed = worker_allowed"
    then have a: "worker_allowed u" using url(2) by simp
    show ?thesis
      unfolding v
      by (simp add: axios_stream_no_size[where up = up, OF url(1) a hd z]
                    axios_stream_no_size[where up = up', OF url(1) a hd' z'] axios_caught_def)
  qed
qed

theorem zero_length_is_metadata_unavailable_witness:
  "status (fst (express_stream (cdn_of_length ''0'') (stream_request None))) = 500
   \<and> status (fst (handleStream (cdn_of_length ''0'') (stream_request None))) = 500
   \<and> status (fst (axios_stream (cdn_of_length ''0'') (stream_request None))) = 500
   \<and> snd (axios_stream (cdn_of_length ''0'') (stream_request None))
        = [headCall ''https://valiw.hakunaymatata.com/v.mp4'']"
proof -
  note T = zero_length_is_metadata_unavailable[where up = "cdn_of_length ''0''"
             and req = "stream_request None", OF _ stream_request_facts(1) _
             cdn_of_length_reply cdn_sizes(1) refl]
  have e: "(express_stream = express_stream \<and> express_allowed = express_allowed)
           \<or> (express_stream = handleStream \<and> express_allowed = worker_allowed)
           \<or> (express_stream = axios_stream \<and> express_allowed = worker_allowed)"
    by simp
  have w: "(handleStream = express_stream \<and> worker_allowed = express_allowed)
           \<or> (handleStream = handleStream \<and> worker_allowed = worker_allowed)
           \<or> (handleStream = axios_stream \<and> worker_allowed = worker_allowed)"
    by simp
  have a: "(axios_stream = express_stream \<and> worker_allowed = express_allowed)
           \<or> (axios_stream = handleStream \<and> worker_allowed = worker_allowed)
           \<or> (axios_stream = axios_stream \<and> worker_allowed = worker_allowed)"
    by simp
  show ?thesis
    using T[OF e stream_request_facts(4)] T[OF w stream_request_facts(3)]
          T[OF a stream_request_facts(3)]
    by blast
qed

subsection \<open>The download handlers\<close>















subsection \<open>The cookie cache\<close>

lemma cookie_pair_eq: "cookie_pair cookie = trim (takeWhile (\<lambda>x. x \<noteq> CHR '';'') cookie)"
  using split_js_first[of "CHR '';''" cookie] by (auto simp: cookie_pair_def)

lemma getCookies_hit:
  assumes "cookieCache st = Some c" "c \<noteq> []" "now - cookieCacheTime st < COOKIE_CACHE_DURATION"
  shows "getCookies_with rd boot now st = (Some c, st, 0)"
  using assms by (simp add: getCookies_with_def)

lemma getCookies_miss_calls:
  assumes "\<not> (str_truthy (cookieCache st) \<and> now - cookieCacheTime st < COOKIE_CACHE_DURATION)"
  shows "snd (snd (getCookies_with rd boot now st)) = 1"
  using assms by (auto simp: getCookies_with_def Let_def split: sum.splits)

lemma getCookies_miss_failed:
  assumes "\<not> (str_truthy (cookieCache st) \<and> now - cookieCacheTime st < COOKIE_CACHE_DURATION)"
  shows "getCookies_with rd (Inl err) now st = (None, st, 1)"
  using assms by (auto simp: getCookies_with_def)

lemma getCookies_miss_no_cookies:
  assumes "\<not> (str_truthy (cookieCache st) \<and> now - cookieCacheTime st < COOKIE_CACHE_DURATION)"
      and "rd h = []"
  shows "getCookies_with rd (Inr h) now st = (cookieCache st, st, 1)"
  using assms by (auto simp: getCookies_with_def)

lemma getCookies_miss_cookies:
  assumes "\<not> (str_truthy (cookieCache st) \<and> now - cookieCacheTime st < COOKIE_CACHE_DURATION)"
      and "rd h \<noteq> []"
  shows "getCookies_with rd (Inr h) now st =
           (Some (join ''; '' (map (\<lambda>cookie. trim (takeWhile (\<lambda>x. x \<noteq> CHR '';'') cookie)) (rd h))),
            \<lparr>cookieCache = Some (join ''; '' (map (\<lambda>cookie. trim (takeWhile (\<lambda>x. x \<noteq> CHR '';'') cookie)) (rd h))),
             cookieCacheTime = now\<rparr>, 1)"
proof -
  have "joined_cookies (rd h)
          = join ''; '' (map (\<lambda>cookie. trim (takeWhile (\<lambda>x. x \<noteq> CHR '';'') cookie)) (rd h))"
    using cookie_pair_eq by (simp add: joined_cookies_def cong: map_cong)
  then show ?thesis
    using assms by (auto simp: getCookies_with_def Let_def)
qed

lemma getCookies_returned_is_cached:
  assumes "getCookies_with rd boot now st = (Some c, st', n)"
  shows "cookieCache st' = Some c"
  using assms
  by (auto simp: getCookies_with_def Let_def split: if_splits sum.splits)

lemma getCookies_changed_time:
  assumes "getCookies_with rd boot now st = (r, st', n)" "st' \<noteq> st"
  shows "cookieCacheTime st' = now"
  using assms
  by (auto simp: getCookies_with_def Let_def split: if_splits sum.splits)

lemma ensureCookies_initialized:
  "cookiesInitialized s \<Longrightarrow> ensureCookiesAreAssigned boot s = (Inr True, s, 0)"
  by (simp add: ensureCookiesAreAssigned_def)

lemma ensureCookies_failed:
  "\<not> cookiesInitialized s \<Longrightarrow> ensureCookiesAreAssigned (Inl err) s = (Inl err, s, 1)"
  by (simp add: ensureCookiesAreAssigned_def)

lemma makeApiRequest_boot_failed:
  assumes "\<not> (str_truthy (cookieCache st) \<and> now - cookieCacheTime st < COOKIE_CACHE_DURATION)"
  shows "makeApiRequest rd (Inl err) api now st optHeaders
           = (api (spread DEFAULT_HEADERS optHeaders), st, 1)"
  using getCookies_miss_failed[where rd = rd, OF assms]
  by (simp add: makeApiRequest_def)

lemma boot_reply_examples:
  "express_setCookieHeaders (boot_reply [''a=1 ; Path=/'', ''b=2; HttpOnly''])
     = [''a=1 ; Path=/'', ''b=2; HttpOnly'']"
  "worker_setCookieHeaders (boot_reply []) = []"
  "join ''; '' (map (\<lambda>cookie. trim (takeWhile (\<lambda>x. x \<noteq> CHR '';'') cookie))
                    [''a=1 ; Path=/'', ''b=2; HttpOnly'']) = ''a=1; b=2''"
  "\<not> (str_truthy (cookieCache initial_cookie_state)
       \<and> 1000 - cookieCacheTime initial_cookie_state < COOKIE_CACHE_DURATION)"
  "\<not> (str_truthy (cookieCache \<lparr>cookieCache = Some ''a=1'', cookieCacheTime = 0\<rparr>)
       \<and> 3600000 - cookieCacheTime \<lparr>cookieCache = Some ''a=1'', cookieCacheTime = 0\<rparr>
            < COOKIE_CACHE_DURATION)"
  by code_simp+

lemma first_refresh_example:
  "express_getCookies (Inr (boot_reply [''a=1 ; Path=/'', ''b=2; HttpOnly''])) 1000
       initial_cookie_state
     = (Some ''a=1; b=2'', \<lparr>cookieCache = Some ''a=1; b=2'', cookieCacheTime = 1000\<rparr>, 1)"
  by code_simp

lemma ttl_example:
  "(3600999::int) - cookieCacheTime \<lparr>cookieCache = Some ''a=1; b=2'', cookieCacheTime = 1000\<rparr>
     < COOKIE_CACHE_DURATION"
  "COOKIE_CACHE_DURATION
     \<le> (3601000::int) - cookieCacheTime \<lparr>cookieCache = Some ''a=1; b=2'', cookieCacheTime = 1000\<rparr>"
  by (simp_all add: COOKIE_CACHE_DURATION_def)

text \<open>
  Claim C9, as amended. A refresh (the cache is empty or expired, the bootstrap call
  answers) that reads no \<open>Set-Cookie\<close> header returns the cached value and leaves both
  module variables as they were. One that reads some stores, with the current time, the
  text of each header before its first semicolon, trimmed of surrounding white space, the
  pieces joined with a semicolon and a space. The headers read are
  \<open>express_setCookieHeaders\<close> for the Express server and \<open>worker_setCookieHeaders\<close> for
  the Worker.
\<close>

theorem refresh_stores_trimmed_pairs:
  assumes variant: "(getCookies = express_getCookies \<and> hs = express_setCookieHeaders h)
                    \<or> (getCookies = worker_getCookies \<and> hs = worker_setCookieHeaders h)"
      and stale: "\<not> (str_truthy (cookieCache st)
                       \<and> now - cookieCacheTime st < COOKIE_CACHE_DURATION)"
      and stored: "c = join ''; '' (map (\<lambda>cookie. trim (takeWhile (\<lambda>x. x \<noteq> CHR '';'') cookie)) hs)"
  shows "(hs = [] \<longrightarrow> getCookies (Inr h) now st = (cookieCache st, st, 1))
       \<and> (hs \<noteq> [] \<longrightarrow> getCookies (Inr h) now st
                          = (Some c, \<lparr>cookieCache = Some c, cookieCacheTime = now\<rparr>, 1))"
  using variant
proof
  assume v: "getCookies = express_getCookies \<and> hs = express_setCookieHeaders h"
  show ?thesis
    using getCookies_miss_no_cookies[where rd = express_setCookieHeaders, OF stale]
          getCookies_miss_cookies[where rd = express_setCookieHeaders, OF stale]
    by (simp add: v stored express_getCookies_def)
next
  assume v: "getCookies = worker_getCookies \<and> hs = worker_setCookieHeaders h"
  show ?thesis
    using getCookies_miss_no_cookies[where rd = worker_setCookieHeaders, OF stale]
          getCookies_miss_cookies[where rd = worker_setCookieHeaders, OF stale]
    by (simp add: v stored worker_getCookies_def)
qed

text \<open>
  The claim as stated fails for a header with white space before its first semicolon:
  from \<open>a=1 ; Path=/\<close> the cache stores \<open>a=1\<close>, not the text before the semicolon.
\<close>

theorem refresh_stores_trimmed_pairs_counterexample:
  "cookieCache (fst (snd (express_getCookies (Inr (boot_reply [''a=1 ; Path=/''])) 1000
                            initial_cookie_state))) = Some ''a=1''
   \<and> ''a=1 ; Path=/'' = ''a=1 '' @ ''; Path=/''
   \<and> ''a=1'' \<noteq> ''a=1 ''"
  by code_simp

theorem refresh_stores_trimmed_pairs_witness:
  "express_getCookies (Inr (boot_reply [''a=1 ; Path=/'', ''b=2; HttpOnly''])) 1000
       initial_cookie_state
     = (Some ''a=1; b=2'', \<lparr>cookieCache = Some ''a=1; b=2'', cookieCacheTime = 1000\<rparr>, 1)
   \<and> worker_getCookies (Inr (boot_reply [])) 3600000
       \<lparr>cookieCache = Some ''a=1'', cookieCacheTime = 0\<rparr>
     = (Some ''a=1'', \<lparr>cookieCache = Some ''a=1'', cookieCacheTime = 0\<rparr>, 1)"
proof -
  let ?h = "boot_reply [''a=1 ; Path=/'', ''b=2; HttpOnly'']"
  have v1: "(express_getCookies = express_getCookies
               \<and> [''a=1 ; Path=/'', ''b=2; HttpOnly''] = express_setCookieHeaders ?h)
            \<or> (express_getCookies = worker_getCookies
               \<and> [''a=1 ; Path=/'', ''b=2; HttpOnly''] = worker_setCookieHeaders ?h)"
    using boot_reply_examples(1) by simp
  have v2: "(worker_getCookies = express_getCookies
               \<and> [] = express_setCookieHeaders (boot_reply []))
            \<or> (worker_getCookies = worker_getCookies
               \<and> [] = worker_setCookieHeaders (boot_reply []))"
    using boot_reply_examples(2) by simp
  note T1 = refresh_stores_trimmed_pairs[OF v1 boot_reply_examples(4) refl, THEN conjunct2,
              rule_format]
  note T2 = refresh_stores_trimmed_pairs[OF v2 boot_reply_examples(5) refl, THEN conjunct1,
              rule_format, OF refl]
  show ?thesis
    using T1 T2 boot_reply_examples(3) by simp
qed

text \<open>
  Claim C5, as amended. In the two \<open>fetch\<close> variants, once a call of \<open>getCookies\<close>
  has returned a non-empty credential, that credential is what the cache holds; a later
  call made less than 3600000 ms after the cache's acquisition time returns the same
  string, leaves the state alone and issues no bootstrap call, and a call made 3600000 ms
  or more after it issues exactly one. When the first call changed the cache, the
  acquisition time is the time of that call. The axios variant has no expiry: once
  \<open>cookiesInitialized\<close> is set, a call never issues a bootstrap call.
\<close>

theorem credential_cache_ttl:
  assumes variant: "getCookies = express_getCookies \<or> getCookies = worker_getCookies"
      and first: "getCookies boot1 t1 st0 = (Some c, st1, n1)" "c \<noteq> []"
  shows "cookieCache st1 = Some c
       \<and> (st1 \<noteq> st0 \<longrightarrow> cookieCacheTime st1 = t1)
       \<and> (t2 - cookieCacheTime st1 < COOKIE_CACHE_DURATION
            \<longrightarrow> getCookies boot2 t2 st1 = (Some c, st1, 0))
       \<and> (COOKIE_CACHE_DURATION \<le> t2 - cookieCacheTime st1
            \<longrightarrow> snd (snd (getCookies boot2 t2 st1)) = 1)
       \<and> (cookiesInitialized s \<longrightarrow> ensureCookiesAreAssigned boot3 s = (Inr True, s, 0))"
proof -
  obtain rd where g: "getCookies = getCookies_with rd"
    using variant by (auto simp: express_getCookies_def worker_getCookies_def)
  note f = first(1)[unfolded g]
  have cached: "cookieCache st1 = Some c"
    using getCookies_returned_is_cached[OF f] .
  have time: "st1 \<noteq> st0 \<Longrightarrow> cookieCacheTime st1 = t1"
    using getCookies_changed_time[OF f] .
  have hit: "t2 - cookieCacheTime st1 < COOKIE_CACHE_DURATION
               \<Longrightarrow> getCookies boot2 t2 st1 = (Some c, st1, 0)"
    unfolding g using getCookies_hit[OF cached first(2)] .
  have miss: "COOKIE_CACHE_DURATION \<le> t2 - cookieCacheTime st1
               \<Longrightarrow> snd (snd (getCookies boot2 t2 st1)) = 1"
    unfolding g by (rule getCookies_miss_calls) simp
  show ?thesis
    using cached time hit miss ensureCookies_initialized by blast
qed

theorem credential_cache_ttl_witness:
  "express_getCookies (Inl ''down'') 3600999
       \<lparr>cookieCache = Some ''a=1; b=2'', cookieCacheTime = 1000\<rparr>
     = (Some ''a=1; b=2'', \<lparr>cookieCache = Some ''a=1; b=2'', cookieCacheTime = 1000\<rparr>, 0)
   \<and> snd (snd (express_getCookies (Inl ''down'') 3601000
                  \<lparr>cookieCache = Some ''a=1; b=2'', cookieCacheTime = 1000\<rparr>)) = 1
   \<and> ensureCookiesAreAssigned (Inl ''down'')
        \<lparr>cookiesInitialized = True, movieboxAppInfo = Some ''{}''\<rparr>
      = (Inr True, \<lparr>cookiesInitialized = True, movieboxAppInfo = Some ''{}''\<rparr>, 0)"
proof -
  have v: "express_getCookies = express_getCookies \<or> express_getCookies = worker_getCookies"
    by simp
  have ne: "''a=1; b=2'' \<noteq> []" by simp
  have i: "cookiesInitialized \<lparr>cookiesInitialized = True, movieboxAppInfo = Some ''{}''\<rparr>"
    by simp
  note T = credential_cache_ttl[OF v first_refresh_example ne]
  note hit = T[where ?t2.0 = 3600999, THEN conjunct2, THEN conjunct2, THEN conjunct1,
               rule_format, OF ttl_example(1)]
  note miss = T[where ?t2.0 = 3601000, THEN conjunct2, THEN conjunct2, THEN conjunct2,
                THEN conjunct1, rule_format, OF ttl_example(2)]
  note ax = T[THEN conjunct2, THEN conjunct2, THEN conjunct2, THEN conjunct2, rule_format, OF i]
  show ?thesis
    using hit miss ax by simp
qed

text \<open>
  The claim as stated fails in two ways. A first call whose bootstrap reply has no
  \<open>Set-Cookie\<close> header returns \<open>null\<close> and caches nothing, so a second call one second
  later issues a bootstrap call again and may return a different value. And on the axios
  server, after one successful bootstrap, no later call refreshes, however late.
\<close>

theorem credential_cache_ttl_counterexample:
  "fst (express_getCookies (Inr (boot_reply [])) 1000 initial_cookie_state) = None
   \<and> fst (snd (express_getCookies (Inr (boot_reply [])) 1000 initial_cookie_state))
        = initial_cookie_state
   \<and> (2000::int) - 1000 < COOKIE_CACHE_DURATION
   \<and> express_getCookies (Inr (boot_reply [''a=1''])) 2000 initial_cookie_state
        = (Some ''a=1'', \<lparr>cookieCache = Some ''a=1'', cookieCacheTime = 2000\<rparr>, 1)
   \<and> fst (snd (ensureCookiesAreAssigned (Inr \<lparr>document = ''{}'', data_member = None\<rparr>)
                  initial_axios_session))
        = \<lparr>cookiesInitialized = True, movieboxAppInfo = Some ''{}''\<rparr>
   \<and> snd (snd (ensureCookiesAreAssigned (Inr \<lparr>document = ''{}'', data_member = None\<rparr>)
                  \<lparr>cookiesInitialized = True, movieboxAppInfo = Some ''{}''\<rparr>)) = 0"
  by code_simp

text \<open>
  Claim C4, as amended. A bootstrap call is issued only when the cache is empty or
  expired. When it then fails, \<open>getCookies\<close> of the two \<open>fetch\<close> variants returns
  \<open>null\<close> (not the expired credential the cache may hold) and leaves the cache as it was;
  \<open>makeApiRequest\<close> goes on to the catalog call with the merged headers and no
  \<open>Cookie\<close> added, and its result is that call's result, so the homepage handlers
  answer 200 whenever the catalog call succeeds. In the axios variant
  \<open>ensureCookiesAreAssigned\<close> rethrows the failure, the catalog call is not made, and the
  homepage handler answers 500 with the error's message.
\<close>

theorem bootstrap_failure_handling:
  assumes stale: "\<not> (str_truthy (cookieCache st)
                       \<and> now - cookieCacheTime st < COOKIE_CACHE_DURATION)"
  shows "express_getCookies (Inl err) now st = (None, st, 1)
       \<and> worker_getCookies (Inl err) now st = (None, st, 1)
       \<and> makeApiRequest readHeaders (Inl err) api now st optHeaders
            = (api (spread DEFAULT_HEADERS optHeaders), st, 1)
       \<and> (api (spread DEFAULT_HEADERS []) = Inr r
            \<longrightarrow> status (fst (express_homepage (Inl err) api now st)) = 200
                \<and> status (fst (handleHomepage (Inl err) api now st)) = 200)
       \<and> (\<not> cookiesInitialized s
            \<longrightarrow> ensureCookiesAreAssigned (Inl err) s = (Inl err, s, 1)
                \<and> axios_homepage (Inl err) api s
                     = (axios_caught ''Failed to fetch homepage content'' err, s, 1)
                \<and> status (fst (axios_homepage (Inl err) api s)) = 500)"
proof -
  note M = makeApiRequest_boot_failed[OF stale]
  have home: "status (fst (express_homepage (Inl err) api now st)) = 200
              \<and> status (fst (handleHomepage (Inl err) api now st)) = 200"
    if "api (spread DEFAULT_HEADERS []) = Inr r"
    using that by (simp add: express_homepage_def handleHomepage_def M)
  have ax: "ensureCookiesAreAssigned (Inl err) s = (Inl err, s, 1)
            \<and> axios_homepage (Inl err) api s
                 = (axios_caught ''Failed to fetch homepage content'' err, s, 1)
            \<and> status (fst (axios_homepage (Inl err) api s)) = 500"
    if "\<not> cookiesInitialized s"
    using ensureCookies_failed[OF that]
    by (simp add: axios_homepage_def axios_makeApiRequest_def axios_caught_def)
  have g: "express_getCookies (Inl err) now st = (None, st, 1)"
          "worker_getCookies (Inl err) now st = (None, st, 1)"
    using getCookies_miss_failed[OF stale]
    by (simp_all add: express_getCookies_def worker_getCookies_def)
  show ?thesis
    using g M home ax by blast
qed

text \<open>
  The claim as stated fails in two ways: with an expired credential \<open>a=1\<close> in the cache,
  a failed bootstrap makes \<open>getCookies\<close> return \<open>null\<close>, not \<open>a=1\<close>; and on the axios
  server a failed bootstrap is answered 500.
\<close>

theorem bootstrap_failure_handling_counterexample:
  "express_getCookies (Inl ''down'') 3600000 \<lparr>cookieCache = Some ''a=1'', cookieCacheTime = 0\<rparr>
     = (None, \<lparr>cookieCache = Some ''a=1'', cookieCacheTime = 0\<rparr>, 1)
   \<and> status (fst (axios_homepage (Inl ''down'') catalog_ok initial_axios_session)) = 500"
  by code_simp

theorem bootstrap_failure_handling_witness:
  "worker_getCookies (Inl ''down'') 3600000 \<lparr>cookieCache = Some ''a=1'', cookieCacheTime = 0\<rparr>
     = (None, \<lparr>cookieCache = Some ''a=1'', cookieCacheTime = 0\<rparr>, 1)
   \<and> status (fst (express_homepage (Inl ''down'') catalog_ok 3600000
                    \<lparr>cookieCache = Some ''a=1'', cookieCacheTime = 0\<rparr>)) = 200
   \<and> status (fst (axios_homepage (Inl ''down'') catalog_ok initial_axios_session)) = 500"
proof -
  have c: "catalog_ok (spread DEFAULT_HEADERS []) = Inr \<lparr>document = ''{}'', data_member = None\<rparr>"
    by (simp add: catalog_ok_def)
  have i: "\<not> cookiesInitialized initial_axios_session"
    by (simp add: initial_axios_session_def)
  note T = bootstrap_failure_handling[where err = "''down''" and api = catalog_ok,
             OF boot_reply_examples(5)]
  note home = T[THEN conjunct2, THEN conjunct2, THEN conjunct2, THEN conjunct1, rule_format, OF c]
  note ax = T[THEN conjunct2, THEN conjunct2, THEN conjunct2, THEN conjunct2, rule_format, OF i]
  show ?thesis
    using T home ax by blast
qed

end
